theory Spec2Isabelle
  imports Complex_Main
begin

section \<open>Values, exceptions and events\<close>

text \<open>
  The script \<open>backend/scripts/hf_download.py\<close> is a command-line wrapper around
  \<open>huggingface_hub\<close>. It prints one JSON object per line on standard output.
  Python values that occur in event payloads and in keyword arguments are modelled by
  \<open>pyval\<close>; a dict is an association list in insertion order. \<open>json.dumps\<close> is
  abstracted: an event is the dict that is serialised, not the text of the line.
  A finite Python \<open>float\<close> is modelled by the exact real number it approximates
  (rounding to binary64 is abstracted); the two infinite floats are values of their own.
\<close>

datatype pyval =
    PNone
  | PBool bool
  | PInt int
  | PFloat real
  | PFloatInf bool
  | PStr string
  | PList "pyval list"

type_synonym pydict = "(string \<times> pyval) list"

text \<open>
  An instance of \<open>Exception\<close>: \<open>type(e).__name__\<close> and \<open>str(e)\<close>. The handlers of the
  script are \<open>except Exception\<close>; \<open>KeyboardInterrupt\<close> and \<open>SystemExit\<close> are not
  instances of \<open>Exception\<close> and are not values of this type.
\<close>

datatype py_exn = PyExn (exn_name: string) (exn_str: string)

record event =
  ev_type :: string
  ev_data :: pydict

text \<open>\<open>data or {}\<close>: \<open>None\<close> and the empty dict both give the empty dict.\<close>

definition send_progress :: "string \<Rightarrow> pydict option \<Rightarrow> event" where
  "send_progress event_type data =
     \<lparr>ev_type = event_type, ev_data = (case data of None \<Rightarrow> [] | Some d \<Rightarrow> d)\<rparr>"

definition send_error :: "string \<Rightarrow> pyval \<Rightarrow> event" where
  "send_error message code =
     \<lparr>ev_type = ''error'', ev_data = [(''message'', PStr message), (''code'', code)]\<rparr>"

definition send_complete :: "pydict \<Rightarrow> event" where
  "send_complete result = \<lparr>ev_type = ''complete'', ev_data = result\<rparr>"

section \<open>ProgressReporter\<close>

record ProgressReporter =
  current_bytes :: int
  total_bytes :: int
  last_report_time :: real
  report_interval :: real

definition ProgressReporter_init :: ProgressReporter where
  "ProgressReporter_init =
     \<lparr>current_bytes = 0, total_bytes = 0, last_report_time = 0, report_interval = 1 / 2\<rparr>"

text \<open>
  A real number of this magnitude or more rounds to an infinite binary64 float: the
  bound lies half a unit in the last place above the largest finite float.
\<close>

definition float_overflow :: real where
  "float_overflow = 2 ^ 1024 - 2 ^ 970"

text \<open>
  Python's \<open>/\<close> on two ints: \<open>ZeroDivisionError\<close> when the divisor is zero,
  \<open>OverflowError\<close> when the quotient is too large for a float, otherwise the float
  nearest to the quotient.
\<close>

definition py_truediv :: "int \<Rightarrow> int \<Rightarrow> py_exn + real" where
  "py_truediv a b =
     (if b = 0 then Inl (PyExn ''ZeroDivisionError'' ''division by zero'')
      else if float_overflow \<le> \<bar>real_of_int a / real_of_int b\<bar>
      then Inl (PyExn ''OverflowError'' ''integer division result too large for a float'')
      else Inr (real_of_int a / real_of_int b))"

text \<open>
  Python's \<open>*\<close> on two floats never raises: a product beyond the float range is
  \<open>inf\<close> or \<open>-inf\<close> (\<open>PFloatInf True\<close> is the negative one).
\<close>

definition py_float_mul :: "real \<Rightarrow> real \<Rightarrow> pyval" where
  "py_float_mul x y =
     (if float_overflow \<le> \<bar>x * y\<bar> then PFloatInf (x * y < 0) else PFloat (x * y))"

text \<open>
  The conditional expression of line 90:
  \<open>(self.current_bytes / self.total_bytes * 100) if self.total_bytes > 0 else 0\<close>.
\<close>

definition percentage :: "int \<Rightarrow> int \<Rightarrow> py_exn + pyval" where
  "percentage cb tb =
     (if tb > 0
      then (case py_truediv cb tb of Inl e \<Rightarrow> Inl e | Inr q \<Rightarrow> Inr (py_float_mul q 100))
      else Inr (PInt 0))"

text \<open>
  \<open>report(self, progress, current=None, total=None)\<close>. The reading of \<open>time.time()\<close>
  is the argument \<open>now\<close>. The result is the reporter after the call, together with the
  events the call printed or the exception it raised. The two assignments to
  \<open>total_bytes\<close> and \<open>current_bytes\<close> come first and stay when the percentage raises;
  the percentage is evaluated before \<open>send_progress\<close> is called, so a call that raises
  prints nothing and leaves \<open>last_report_time\<close> as it was.
\<close>

definition report ::
  "ProgressReporter \<Rightarrow> real \<Rightarrow> pyval \<Rightarrow> int option \<Rightarrow> int option
     \<Rightarrow> ProgressReporter \<times> (py_exn + event list)" where
  "report self now progress cur tot =
     (let self1 = (case tot of None \<Rightarrow> self | Some t \<Rightarrow> self\<lparr>total_bytes := t\<rparr>);
          self2 = (case cur of None \<Rightarrow> self1 | Some c \<Rightarrow> self1\<lparr>current_bytes := c\<rparr>)
      in if now - last_report_time self2 \<ge> report_interval self2
         then (case percentage (current_bytes self2) (total_bytes self2) of
                 Inl e \<Rightarrow> (self2, Inl e)
               | Inr pct \<Rightarrow>
                   (self2\<lparr>last_report_time := now\<rparr>,
                    Inr [send_progress ''progress''
                           (Some [(''current'', PInt (current_bytes self2)),
                                  (''total'', PInt (total_bytes self2)),
                                  (''percentage'', pct)])]))
         else (self2, Inr []))"






section \<open>The environment\<close>

text \<open>
  Everything outside the script is a field of \<open>world\<close>: whether
  \<open>huggingface_hub\<close> can be imported, the process environment, the three library
  functions, and the file system as the script observes it after the library call
  (\<open>os.path.exists\<close>, \<open>os.path.islink\<close>, \<open>os.path.getsize\<close>, \<open>os.path.join\<close>
  and the triples \<open>(root, dirs, files)\<close> that \<open>os.walk\<close> yields). A library function
  returns its value or raises; \<open>os.path.getsize\<close> returns a byte count or raises
  \<open>OSError\<close>. Writes to standard output are taken to succeed.
\<close>

record world =
  hf_importable :: bool
  os_environ :: "string \<rightharpoonup> string"
  hf_hub_download :: "pydict \<Rightarrow> py_exn + string"
  snapshot_download :: "pydict \<Rightarrow> py_exn + string"
  hf_hub_url :: "string \<Rightarrow> string \<Rightarrow> string \<Rightarrow> py_exn + string"
  os_path_exists :: "string \<Rightarrow> bool"
  os_path_islink :: "string \<Rightarrow> bool"
  os_path_getsize :: "string \<Rightarrow> py_exn + nat"
  os_path_join :: "string \<Rightarrow> string \<Rightarrow> string"
  os_walk :: "string \<Rightarrow> (string \<times> string list \<times> string list) list"

text \<open>
  What a run does, in order: a JSON line on standard output, a write to standard
  error, or a call of a library function with its keyword arguments.
\<close>

datatype effect = Stdout event | Stderr string | LibCall string pydict

fun stdout_events :: "effect list \<Rightarrow> event list" where
  "stdout_events [] = []"
| "stdout_events (Stdout e # tr) = e # stdout_events tr"
| "stdout_events (Stderr s # tr) = stdout_events tr"
| "stdout_events (LibCall f kw # tr) = stdout_events tr"

fun lib_calls :: "effect list \<Rightarrow> (string \<times> pydict) list" where
  "lib_calls [] = []"
| "lib_calls (Stdout e # tr) = lib_calls tr"
| "lib_calls (Stderr s # tr) = lib_calls tr"
| "lib_calls (LibCall f kw # tr) = (f, kw) # lib_calls tr"

definition events_of_type :: "string \<Rightarrow> effect list \<Rightarrow> event list" where
  "events_of_type ty tr = filter (\<lambda>e. ev_type e = ty) (stdout_events tr)"

text \<open>Truth value of an optional string: \<open>None\<close> and \<open>""\<close> are false.\<close>

fun truthy :: "string option \<Rightarrow> bool" where
  "truthy None = False"
| "truthy (Some s) = (s \<noteq> [])"

text \<open>\<open>x or y\<close> on optional strings.\<close>

definition py_or :: "string option \<Rightarrow> string option \<Rightarrow> string option" where
  "py_or x y = (if truthy x then x else y)"

text \<open>\<open>if value: kwargs[...] = ...\<close>: the entries added for a true \<open>value\<close>.\<close>

definition kw_if :: "string option \<Rightarrow> (string \<Rightarrow> pydict) \<Rightarrow> pydict" where
  "kw_if v entries = (case v of None \<Rightarrow> [] | Some s \<Rightarrow> if s = [] then [] else entries s)"

text \<open>
  The handler shared by the three operations:
  \<open>except Exception as e: send_error(str(e), type(e).__name__); raise\<close>.
\<close>

definition except_Exception :: "effect list \<times> (py_exn + 'a) \<Rightarrow> effect list \<times> (py_exn + 'a)" where
  "except_Exception r =
     (case r of
        (tr, Inl e) \<Rightarrow> (tr @ [Stdout (send_error (exn_str e) (PStr (exn_name e)))], Inl e)
      | (tr, Inr v) \<Rightarrow> (tr, Inr v))"

section \<open>Single-file download\<close>

text \<open>The keyword arguments built at lines 118-131. \<open>dest\<close> is not among the inputs.\<close>

definition hf_hub_download_kwargs ::
  "string \<Rightarrow> string \<Rightarrow> string \<Rightarrow> string option \<Rightarrow> string option \<Rightarrow> string option \<Rightarrow> pydict" where
  "hf_hub_download_kwargs rid fname rvn tok cdir ldir =
     [(''repo_id'', PStr rid), (''filename'', PStr fname), (''revision'', PStr rvn)]
     @ kw_if tok (\<lambda>t. [(''token'', PStr t)])
     @ kw_if cdir (\<lambda>c. [(''cache_dir'', PStr c)])
     @ kw_if ldir (\<lambda>l. [(''local_dir'', PStr l), (''local_dir_use_symlinks'', PBool False)])"

text \<open>The body of the \<open>try\<close> block of \<open>download_single_file\<close>.\<close>

definition download_single_file_try ::
  "world \<Rightarrow> string \<Rightarrow> string \<Rightarrow> string option \<Rightarrow> string \<Rightarrow> string option \<Rightarrow> string option
     \<Rightarrow> string option \<Rightarrow> effect list \<times> (py_exn + pydict)" where
  "download_single_file_try w rid fname dst rvn tok cdir ldir =
     (let kwargs = hf_hub_download_kwargs rid fname rvn tok cdir ldir;
          called = [Stdout (send_progress ''start''
                      (Some [(''repo_id'', PStr rid), (''filename'', PStr fname),
                             (''revision'', PStr rvn)])),
                    LibCall ''hf_hub_download'' kwargs]
      in case hf_hub_download w kwargs of
           Inl e \<Rightarrow> (called, Inl e)
         | Inr file_path \<Rightarrow>
             (case (if os_path_exists w file_path then os_path_getsize w file_path else Inr 0) of
                Inl e \<Rightarrow> (called, Inl e)
              | Inr file_size \<Rightarrow>
                  (called @ [Stdout (send_complete
                      [(''file_path'', PStr file_path), (''file_size'', PInt (int file_size)),
                       (''repo_id'', PStr rid), (''filename'', PStr fname)])],
                   Inr [(''file_path'', PStr file_path),
                        (''file_size'', PInt (int file_size))])))"

definition download_single_file ::
  "world \<Rightarrow> string \<Rightarrow> string \<Rightarrow> string option \<Rightarrow> string \<Rightarrow> string option \<Rightarrow> string option
     \<Rightarrow> string option \<Rightarrow> effect list \<times> (py_exn + pydict)" where
  "download_single_file w rid fname dst rvn tok cdir ldir =
     except_Exception (download_single_file_try w rid fname dst rvn tok cdir ldir)"

section \<open>Snapshot download\<close>

text \<open>\<open>if allow_patterns: kwargs["allow_patterns"] = allow_patterns\<close>, for a list.\<close>

definition kw_if_list :: "string list option \<Rightarrow> string \<Rightarrow> pydict" where
  "kw_if_list v key =
     (case v of None \<Rightarrow> [] | Some ps \<Rightarrow> if ps = [] then [] else [(key, PList (map PStr ps))])"

definition snapshot_download_kwargs ::
  "string \<Rightarrow> string option \<Rightarrow> string \<Rightarrow> string option \<Rightarrow> string option
     \<Rightarrow> string list option \<Rightarrow> string list option \<Rightarrow> pydict" where
  "snapshot_download_kwargs rid dst rvn tok cdir allow ignore =
     [(''repo_id'', PStr rid), (''revision'', PStr rvn)]
     @ kw_if tok (\<lambda>t. [(''token'', PStr t)])
     @ kw_if cdir (\<lambda>c. [(''cache_dir'', PStr c)])
     @ kw_if_list allow ''allow_patterns''
     @ kw_if_list ignore ''ignore_patterns''
     @ kw_if dst (\<lambda>d. [(''local_dir'', PStr d), (''local_dir_use_symlinks'', PBool False)])"

text \<open>
  The inner loop \<open>for file in files\<close> (lines 206-210), on the accumulator
  \<open>(total_size, file_count)\<close>; it stops when \<open>os.path.getsize\<close> raises.
\<close>

fun count_files :: "world \<Rightarrow> string \<Rightarrow> string list \<Rightarrow> nat \<times> nat \<Rightarrow> py_exn + (nat \<times> nat)" where
  "count_files w rootdir [] acc = Inr acc"
| "count_files w rootdir (file # files) (total_size, file_count) =
     (let file_path = os_path_join w rootdir file
      in if os_path_exists w file_path \<and> \<not> os_path_islink w file_path
         then (case os_path_getsize w file_path of
                 Inl e \<Rightarrow> Inl e
               | Inr n \<Rightarrow> count_files w rootdir files (total_size + n, file_count + 1))
         else count_files w rootdir files (total_size, file_count))"

text \<open>The outer loop \<open>for root, dirs, files in os.walk(snapshot_path)\<close> (line 205).\<close>

fun count_walk ::
  "world \<Rightarrow> (string \<times> string list \<times> string list) list \<Rightarrow> nat \<times> nat \<Rightarrow> py_exn + (nat \<times> nat)" where
  "count_walk w [] acc = Inr acc"
| "count_walk w ((rootdir, dirs, files) # rest) acc =
     (case count_files w rootdir files acc of
        Inl e \<Rightarrow> Inl e
      | Inr acc' \<Rightarrow> count_walk w rest acc')"

definition download_snapshot_try ::
  "world \<Rightarrow> string \<Rightarrow> string option \<Rightarrow> string \<Rightarrow> string option \<Rightarrow> string option
     \<Rightarrow> string list option \<Rightarrow> string list option \<Rightarrow> effect list \<times> (py_exn + pydict)" where
  "download_snapshot_try w rid dst rvn tok cdir allow ignore =
     (let kwargs = snapshot_download_kwargs rid dst rvn tok cdir allow ignore;
          called = [Stdout (send_progress ''start''
                      (Some [(''repo_id'', PStr rid), (''revision'', PStr rvn),
                             (''type'', PStr ''snapshot'')])),
                    LibCall ''snapshot_download'' kwargs]
      in case snapshot_download w kwargs of
           Inl e \<Rightarrow> (called, Inl e)
         | Inr snapshot_path \<Rightarrow>
             (case (if os_path_exists w snapshot_path
                    then count_walk w (os_walk w snapshot_path) (0, 0)
                    else Inr (0, 0)) of
                Inl e \<Rightarrow> (called, Inl e)
              | Inr (total_size, file_count) \<Rightarrow>
                  (called @ [Stdout (send_complete
                      [(''snapshot_path'', PStr snapshot_path),
                       (''file_count'', PInt (int file_count)),
                       (''total_size'', PInt (int total_size)),
                       (''repo_id'', PStr rid)])],
                   Inr [(''snapshot_path'', PStr snapshot_path),
                        (''file_count'', PInt (int file_count)),
                        (''total_size'', PInt (int total_size))])))"

definition download_snapshot ::
  "world \<Rightarrow> string \<Rightarrow> string option \<Rightarrow> string \<Rightarrow> string option \<Rightarrow> string option
     \<Rightarrow> string list option \<Rightarrow> string list option \<Rightarrow> effect list \<times> (py_exn + pydict)" where
  "download_snapshot w rid dst rvn tok cdir allow ignore =
     except_Exception (download_snapshot_try w rid dst rvn tok cdir allow ignore)"

section \<open>URL resolution and availability check\<close>

definition get_file_url_try ::
  "world \<Rightarrow> string \<Rightarrow> string \<Rightarrow> string \<Rightarrow> effect list \<times> (py_exn + string)" where
  "get_file_url_try w rid fname rvn =
     (let called = [LibCall ''hf_hub_url''
                      [(''repo_id'', PStr rid), (''filename'', PStr fname),
                       (''revision'', PStr rvn)]]
      in case hf_hub_url w rid fname rvn of
           Inl e \<Rightarrow> (called, Inl e)
         | Inr url \<Rightarrow>
             (called @ [Stdout (send_complete
                 [(''url'', PStr url), (''repo_id'', PStr rid), (''filename'', PStr fname)])],
              Inr url))"

definition get_file_url ::
  "world \<Rightarrow> string \<Rightarrow> string \<Rightarrow> string \<Rightarrow> effect list \<times> (py_exn + string)" where
  "get_file_url w rid fname rvn = except_Exception (get_file_url_try w rid fname rvn)"

text \<open>\<open>check_available\<close> reads the module global \<open>HF_AVAILABLE\<close>.\<close>

definition check_available :: "bool \<Rightarrow> effect list" where
  "check_available HF_AVAILABLE =
     [Stdout (send_complete [(''available'', PBool HF_AVAILABLE), (''version'', PNone)])]"

section \<open>Command line and main\<close>

text \<open>
  The namespace that \<open>parser.parse_args()\<close> returns. An option that was not given is
  \<open>None\<close>, \<open>--revision\<close> has the default \<open>"main"\<close>, and the three flags are booleans.
\<close>

record args =
  repo_id :: "string option"
  filename :: "string option"
  dest :: "string option"
  revision :: string
  token :: "string option"
  cache_dir :: "string option"
  snapshot :: bool
  allow_patterns :: "string option"
  ignore_patterns :: "string option"
  url_only :: bool
  check :: bool

text \<open>
  \<open>s.split(sep)\<close> for a one-character separator: the pieces between the
  separators, empty pieces included; the empty string gives one empty piece.
\<close>

fun split_sep :: "char \<Rightarrow> string \<Rightarrow> string list" where
  "split_sep sep [] = [[]]"
| "split_sep sep (c # cs) =
     (if c = sep then [] # split_sep sep cs
      else (case split_sep sep cs of [] \<Rightarrow> [[c]] | p # ps \<Rightarrow> (c # p) # ps))"

text \<open>\<open>args.allow_patterns.split(",") if args.allow_patterns else None\<close> (lines 317, 318).\<close>

definition split_patterns :: "string option \<Rightarrow> string list option" where
  "split_patterns v =
     (case v of None \<Rightarrow> None | Some s \<Rightarrow> if s = [] then None else Some (split_sep CHR '','' s))"

text \<open>Lines 302 and 303: the token, from the command line or from \<open>HF_TOKEN\<close>.\<close>

definition resolve_token :: "world \<Rightarrow> args \<Rightarrow> string option" where
  "resolve_token w a = (if truthy (token a) then token a else os_environ w ''HF_TOKEN'')"

text \<open>Lines 306 and 307: the cache directory, from the command line or the environment.\<close>

definition resolve_cache_dir :: "world \<Rightarrow> args \<Rightarrow> string option" where
  "resolve_cache_dir w a =
     (if truthy (cache_dir a) then cache_dir a
      else py_or (os_environ w ''HF_HUB_CACHE'') (os_environ w ''HUGGINGFACE_HUB_CACHE''))"

text \<open>
  How \<open>main\<close> ends: it returns a value, an exception leaves it, or \<open>parser.error\<close>
  stops the process (argparse prints the message and exits with status 2).
\<close>

datatype main_result = Returned pyval | Raised py_exn | ParserError string

definition main :: "world \<Rightarrow> bool \<Rightarrow> args \<Rightarrow> effect list \<times> main_result" where
  "main w HF_AVAILABLE a =
     (if check a then (check_available HF_AVAILABLE, Returned (PInt 0))
      else if \<not> truthy (repo_id a)
      then ([], ParserError ''--repo-id is required (unless using --check)'')
      else
        (let rid = (case repo_id a of None \<Rightarrow> [] | Some r \<Rightarrow> r);
             tok = resolve_token w a;
             cdir = resolve_cache_dir w a
         in if url_only a
            then (case filename a of
                    None \<Rightarrow> ([], ParserError ''--filename is required for --url-only'')
                  | Some fname \<Rightarrow>
                      if fname = []
                      then ([], ParserError ''--filename is required for --url-only'')
                      else (case get_file_url w rid fname (revision a) of
                              (tr, Inl e) \<Rightarrow> (tr, Raised e)
                            | (tr, Inr url) \<Rightarrow> (tr, Returned (PStr url))))
            else if snapshot a
            then (case download_snapshot w rid (dest a) (revision a) tok cdir
                         (split_patterns (allow_patterns a))
                         (split_patterns (ignore_patterns a)) of
                    (tr, Inl e) \<Rightarrow> (tr, Raised e)
                  | (tr, Inr r) \<Rightarrow> (tr, Returned (PInt 0)))
            else (case filename a of
                    None \<Rightarrow> ([], ParserError ''--filename or --snapshot is required'')
                  | Some fname \<Rightarrow>
                      if fname = []
                      then ([], ParserError ''--filename or --snapshot is required'')
                      else (case download_single_file w rid fname (dest a) (revision a)
                                   tok cdir None of
                              (tr, Inl e) \<Rightarrow> (tr, Raised e)
                            | (tr, Inr r) \<Rightarrow> (tr, Returned (PInt 0))))))"

text \<open>
  \<open>sys.exit(v)\<close>: \<open>None\<close> is status 0, an integer is the status, any other object is
  printed to standard error and the status is 1.
\<close>

fun sys_exit :: "pyval \<Rightarrow> int" where
  "sys_exit PNone = 0"
| "sys_exit (PInt n) = n"
| "sys_exit (PBool b) = (if b then 1 else 0)"
| "sys_exit (PFloat x) = 1"
| "sys_exit (PFloatInf neg) = 1"
| "sys_exit (PStr s) = 1"
| "sys_exit (PList vs) = 1"

text \<open>The exit status of \<open>sys.exit(main())\<close>; an uncaught exception ends the process with 1.\<close>

fun exit_status :: "main_result \<Rightarrow> int" where
  "exit_status (Returned v) = sys_exit v"
| "exit_status (Raised e) = 1"
| "exit_status (ParserError m) = 2"

text \<open>
  The whole script: the import guard of lines 26-34, then \<open>sys.exit(main())\<close>. When the
  import fails the guard writes two lines to standard error and calls \<open>sys.exit(1)\<close>
  before \<open>main\<close> is defined; otherwise \<open>HF_AVAILABLE\<close> is \<open>True\<close>.
\<close>

definition script :: "world \<Rightarrow> args \<Rightarrow> effect list \<times> int" where
  "script w a =
     (if hf_importable w
      then (case main w True a of (tr, r) \<Rightarrow> (tr, exit_status r))
      else ([Stderr (''ERROR: huggingface_hub is not installed. Install it with:'' @ [CHR 0x0A]),
             Stderr (''  pip install huggingface_hub'' @ [CHR 0x0A])], 1))"

section \<open>Notions the properties are stated with\<close>




text \<open>\<open>sep.join(pieces)\<close>, the inverse of splitting.\<close>

fun join_sep :: "char \<Rightarrow> string list \<Rightarrow> string" where
  "join_sep sep [] = []"
| "join_sep sep [p] = p"
| "join_sep sep (p # q # ps) = p @ sep # join_sep sep (q # ps)"


section \<open>Example inputs\<close>

text \<open>
  A world in which every library call succeeds. The snapshot directory \<open>/snap\<close> holds
  the file \<open>a\<close> (3 bytes), the symbolic link \<open>ln\<close> and the directory \<open>sub\<close> with the
  file \<open>b\<close> (4 bytes).
\<close>

definition example_world :: world where
  "example_world =
     \<lparr>hf_importable = True,
      os_environ = Map.empty,
      hf_hub_download = (\<lambda>kw. Inr ''/cache/config.json''),
      snapshot_download = (\<lambda>kw. Inr ''/snap''),
      hf_hub_url = (\<lambda>r f v. Inr (''https://hub/'' @ r @ ''/resolve/'' @ v @ ''/'' @ f)),
      os_path_exists = (\<lambda>p. p \<in> set [''/cache/config.json'', ''/snap'', ''/snap/a'',
                                         ''/snap/ln'', ''/snap/sub'', ''/snap/sub/b'']),
      os_path_islink = (\<lambda>p. p = ''/snap/ln''),
      os_path_getsize = (\<lambda>p. if p = ''/cache/config.json'' then Inr 665
                              else if p = ''/snap/a'' then Inr 3
                              else if p = ''/snap/sub/b'' then Inr 4
                              else Inl (PyExn ''FileNotFoundError'' p)),
      os_path_join = (\<lambda>d f. d @ ''/'' @ f),
      os_walk = (\<lambda>p. if p = ''/snap''
                      then [(''/snap'', [''sub''], [''a'', ''ln'']), (''/snap/sub'', [], [''b''])]
                      else [])\<rparr>"

definition example_args :: args where
  "example_args =
     \<lparr>repo_id = Some ''gpt2'', filename = Some ''config.json'', dest = None,
      revision = ''main'', token = None, cache_dir = None, snapshot = False,
      allow_patterns = None, ignore_patterns = None, url_only = False, check = False\<rparr>"




text \<open>Snapshot invocations with an empty and with a three-part \<open>--allow-patterns\<close>.\<close>

definition empty_pattern_args :: args where
  "empty_pattern_args = example_args\<lparr>snapshot := True, allow_patterns := Some ''''\<rparr>"

definition pattern_args :: args where
  "pattern_args = example_args\<lparr>snapshot := True, allow_patterns := Some ''a,b,c''\<rparr>"

section \<open>Properties of ProgressReporter\<close>











text \<open>
  A due call whose quotient is beyond the float range raises and prints nothing; the
  totals it was given stay in the reporter.
\<close>

lemma report_overflow_example:
  "report ProgressReporter_init 100 PNone (Some (2 ^ 1024)) (Some 1)
     = (ProgressReporter_init\<lparr>total_bytes := 1, current_bytes := 2 ^ 1024\<rparr>,
        Inl (PyExn ''OverflowError'' ''integer division result too large for a float''))"
  by (simp add: report_def ProgressReporter_init_def percentage_def py_truediv_def
        float_overflow_def Let_def)

section \<open>Properties of the operations\<close>

lemma stdout_events_append: "stdout_events (xs @ ys) = stdout_events xs @ stdout_events ys"
  by (induction xs rule: stdout_events.induct) auto

lemma lib_calls_append: "lib_calls (xs @ ys) = lib_calls xs @ lib_calls ys"
  by (induction xs rule: lib_calls.induct) auto

lemma download_single_file_shape:
  assumes "download_single_file w rid fname dst rvn tok cdir ldir = (tr, r)"
  shows "(\<exists>e. r = Inl e \<and>
            stdout_events tr =
              [send_progress ''start'' (Some [(''repo_id'', PStr rid), (''filename'', PStr fname),
                                              (''revision'', PStr rvn)]),
               send_error (exn_str e) (PStr (exn_name e))])
       \<or> (\<exists>p n. r = Inr [(''file_path'', PStr p), (''file_size'', PInt (int n))] \<and>
            stdout_events tr =
              [send_progress ''start'' (Some [(''repo_id'', PStr rid), (''filename'', PStr fname),
                                              (''revision'', PStr rvn)]),
               send_complete [(''file_path'', PStr p), (''file_size'', PInt (int n)),
                              (''repo_id'', PStr rid), (''filename'', PStr fname)]])"
  using assms
  by (auto simp: download_single_file_def download_single_file_try_def except_Exception_def Let_def
           split: sum.splits if_splits)

lemma download_snapshot_shape:
  assumes "download_snapshot w rid dst rvn tok cdir allow ignore = (tr, r)"
  shows "(\<exists>e. r = Inl e \<and>
            stdout_events tr =
              [send_progress ''start'' (Some [(''repo_id'', PStr rid), (''revision'', PStr rvn),
                                              (''type'', PStr ''snapshot'')]),
               send_error (exn_str e) (PStr (exn_name e))])
       \<or> (\<exists>p fc ts. r = Inr [(''snapshot_path'', PStr p), (''file_count'', PInt (int fc)),
                               (''total_size'', PInt (int ts))] \<and>
            stdout_events tr =
              [send_progress ''start'' (Some [(''repo_id'', PStr rid), (''revision'', PStr rvn),
                                              (''type'', PStr ''snapshot'')]),
               send_complete [(''snapshot_path'', PStr p), (''file_count'', PInt (int fc)),
                              (''total_size'', PInt (int ts)), (''repo_id'', PStr rid)]])"
  using assms
  by (auto simp: download_snapshot_def download_snapshot_try_def except_Exception_def Let_def
           split: sum.splits if_splits prod.splits)

lemma get_file_url_shape:
  assumes "get_file_url w rid fname rvn = (tr, r)"
  shows "(\<exists>e. r = Inl e \<and> stdout_events tr = [send_error (exn_str e) (PStr (exn_name e))])
       \<or> (\<exists>url. r = Inr url \<and>
            stdout_events tr =
              [send_complete [(''url'', PStr url), (''repo_id'', PStr rid),
                              (''filename'', PStr fname)]])"
proof (cases "hf_hub_url w rid fname rvn")
  case (Inl e)
  then have "get_file_url w rid fname rvn =
      ([LibCall ''hf_hub_url'' [(''repo_id'', PStr rid), (''filename'', PStr fname),
                                (''revision'', PStr rvn)],
        Stdout (send_error (exn_str e) (PStr (exn_name e)))], Inl e)"
    by (simp add: get_file_url_def get_file_url_try_def except_Exception_def)
  with assms have "r = Inl e"
    and "stdout_events tr = [send_error (exn_str e) (PStr (exn_name e))]"
    by auto
  then show ?thesis by blast
next
  case (Inr url)
  then have "get_file_url w rid fname rvn =
      ([LibCall ''hf_hub_url'' [(''repo_id'', PStr rid), (''filename'', PStr fname),
                                (''revision'', PStr rvn)],
        Stdout (send_complete [(''url'', PStr url), (''repo_id'', PStr rid),
                               (''filename'', PStr fname)])], Inr url)"
    by (simp add: get_file_url_def get_file_url_try_def except_Exception_def)
  with assms have "r = Inr url"
    and "stdout_events tr = [send_complete [(''url'', PStr url), (''repo_id'', PStr rid),
                                            (''filename'', PStr fname)]]"
    by auto
  then show ?thesis by blast
qed

lemma get_file_url_raises_iff:
  "snd (get_file_url w rid fname rvn) = Inl e \<longleftrightarrow> hf_hub_url w rid fname rvn = Inl e"
  by (cases "hf_hub_url w rid fname rvn")
     (simp_all add: get_file_url_def get_file_url_try_def except_Exception_def)

lemma download_single_file_raises_iff:
  "snd (download_single_file w rid fname dst rvn tok cdir ldir) = Inl e \<longleftrightarrow>
     hf_hub_download w (hf_hub_download_kwargs rid fname rvn tok cdir ldir) = Inl e
     \<or> (\<exists>p. hf_hub_download w (hf_hub_download_kwargs rid fname rvn tok cdir ldir) = Inr p
            \<and> os_path_exists w p \<and> os_path_getsize w p = Inl e)"
  by (cases "hf_hub_download w (hf_hub_download_kwargs rid fname rvn tok cdir ldir)")
     (auto simp: download_single_file_def download_single_file_try_def except_Exception_def
        Let_def split: sum.splits)

lemma download_snapshot_raises_iff:
  "snd (download_snapshot w rid dst rvn tok cdir allow ignore) = Inl e \<longleftrightarrow>
     snapshot_download w (snapshot_download_kwargs rid dst rvn tok cdir allow ignore) = Inl e
     \<or> (\<exists>p. snapshot_download w (snapshot_download_kwargs rid dst rvn tok cdir allow ignore) = Inr p
            \<and> os_path_exists w p \<and> count_walk w (os_walk w p) (0, 0) = Inl e)"
  by (cases "snapshot_download w (snapshot_download_kwargs rid dst rvn tok cdir allow ignore)")
     (auto simp: download_snapshot_def download_snapshot_try_def except_Exception_def
        Let_def split: sum.splits prod.splits)














lemma fst_case_result:
  "fst (case x of (tr, Inl e) \<Rightarrow> (tr, f e) | (tr, Inr r) \<Rightarrow> (tr, g r)) = fst x"
  by (auto split: prod.splits sum.splits)

lemma main_trace_cases:
  "fst (main w av a) = check_available av
   \<or> fst (main w av a) = []
   \<or> (\<exists>rid fname. fst (main w av a) = fst (get_file_url w rid fname (revision a)))
   \<or> (\<exists>rid tok cdir allow ignore.
         fst (main w av a) = fst (download_snapshot w rid (dest a) (revision a) tok cdir allow ignore))
   \<or> (\<exists>rid fname tok cdir.
         fst (main w av a) = fst (download_single_file w rid fname (dest a) (revision a) tok cdir None))"
proof -
  consider (chk) "check a"
    | (norepo) "\<not> check a" "\<not> truthy (repo_id a)"
    | (url) "\<not> check a" "truthy (repo_id a)" "url_only a"
    | (snap) "\<not> check a" "truthy (repo_id a)" "\<not> url_only a" "snapshot a"
    | (single) "\<not> check a" "truthy (repo_id a)" "\<not> url_only a" "\<not> snapshot a"
    by blast
  then show ?thesis
  proof cases
    case chk
    then show ?thesis by (simp add: main_def)
  next
    case norepo
    then show ?thesis by (simp add: main_def)
  next
    case url
    then have "fst (main w av a) = []
       \<or> (\<exists>fname. fst (main w av a) =
             fst (get_file_url w (case repo_id a of None \<Rightarrow> [] | Some r \<Rightarrow> r) fname (revision a)))"
      by (auto simp: main_def Let_def fst_case_result split: option.splits)
    then show ?thesis by blast
  next
    case snap
    then have "fst (main w av a) =
        fst (download_snapshot w (case repo_id a of None \<Rightarrow> [] | Some r \<Rightarrow> r) (dest a) (revision a)
               (resolve_token w a) (resolve_cache_dir w a)
               (split_patterns (allow_patterns a)) (split_patterns (ignore_patterns a)))"
      by (simp add: main_def Let_def fst_case_result)
    then show ?thesis by blast
  next
    case single
    then have "fst (main w av a) = []
       \<or> (\<exists>fname. fst (main w av a) =
             fst (download_single_file w (case repo_id a of None \<Rightarrow> [] | Some r \<Rightarrow> r) fname
                    (dest a) (revision a) (resolve_token w a) (resolve_cache_dir w a) None))"
      by (auto simp: main_def Let_def fst_case_result split: option.splits)
    then show ?thesis by blast
  qed
qed

lemma no_progress_single: "events_of_type ''progress'' (fst (download_single_file w rid fname dst rvn tok cdir ldir)) = []"
proof -
  obtain tr r where run: "download_single_file w rid fname dst rvn tok cdir ldir = (tr, r)"
    by (cases "download_single_file w rid fname dst rvn tok cdir ldir")
  from download_single_file_shape[OF run] show ?thesis
    by (auto simp: run events_of_type_def send_progress_def send_error_def send_complete_def)
qed

lemma no_progress_snapshot: "events_of_type ''progress'' (fst (download_snapshot w rid dst rvn tok cdir allow ignore)) = []"
proof -
  obtain tr r where run: "download_snapshot w rid dst rvn tok cdir allow ignore = (tr, r)"
    by (cases "download_snapshot w rid dst rvn tok cdir allow ignore")
  from download_snapshot_shape[OF run] show ?thesis
    by (auto simp: run events_of_type_def send_progress_def send_error_def send_complete_def)
qed

lemma no_progress_url: "events_of_type ''progress'' (fst (get_file_url w rid fname rvn)) = []"
proof -
  obtain tr r where run: "get_file_url w rid fname rvn = (tr, r)"
    by (cases "get_file_url w rid fname rvn")
  from get_file_url_shape[OF run] show ?thesis
    by (auto simp: run events_of_type_def send_error_def send_complete_def)
qed

lemma no_progress_check: "events_of_type ''progress'' (check_available av) = []"
  by (simp add: check_available_def events_of_type_def send_complete_def)

lemma no_progress_main: "events_of_type ''progress'' (fst (main w av a)) = []"
  using main_trace_cases[of w av a] no_progress_single no_progress_snapshot no_progress_url
    no_progress_check
  by (auto simp: events_of_type_def)

text \<open>
  C9: no operation prints a "progress" event. \<open>ProgressReporter\<close> and \<open>report\<close> occur
  in none of the operations, so the events of a run, of \<open>main\<close> and of each operation
  on its own contain no event of type "progress".
\<close>

theorem no_progress_events:
  "events_of_type ''progress'' (fst (script w a)) = []
   \<and> events_of_type ''progress'' (fst (main w av a)) = []
   \<and> events_of_type ''progress'' (check_available av) = []
   \<and> events_of_type ''progress'' (fst (get_file_url w rid fname rvn)) = []
   \<and> events_of_type ''progress'' (fst (download_single_file w rid fname dst rvn tok cdir ldir)) = []
   \<and> events_of_type ''progress'' (fst (download_snapshot w rid dst rvn tok cdir allow ignore)) = []"
proof -
  have "events_of_type ''progress'' (fst (script w a)) = []"
  proof (cases "hf_importable w")
    case True
    then have "fst (script w a) = fst (main w True a)"
      by (simp add: script_def split: prod.splits)
    then show ?thesis by (simp add: no_progress_main)
  next
    case False
    then show ?thesis by (simp add: script_def events_of_type_def)
  qed
  then show ?thesis
    by (simp add: no_progress_main no_progress_check no_progress_url no_progress_single
          no_progress_snapshot)
qed

lemma download_single_file_ignores_dest:
  "download_single_file w rid fname dst rvn tok cdir ldir
     = download_single_file w rid fname None rvn tok cdir ldir"
  by (simp add: download_single_file_def download_single_file_try_def)

lemma download_single_file_call:
  "lib_calls (fst (download_single_file w rid fname dst rvn tok cdir ldir))
     = [(''hf_hub_download'', hf_hub_download_kwargs rid fname rvn tok cdir ldir)]"
  by (simp add: download_single_file_def download_single_file_try_def except_Exception_def Let_def
        split: sum.splits)

lemma download_snapshot_call:
  "lib_calls (fst (download_snapshot w rid dst rvn tok cdir allow ignore))
     = [(''snapshot_download'', snapshot_download_kwargs rid dst rvn tok cdir allow ignore)]"
  by (simp add: download_snapshot_def download_snapshot_try_def except_Exception_def Let_def
        split: sum.splits prod.splits)

lemma main_single_file_ignores_dest:
  "\<not> check a \<Longrightarrow> \<not> url_only a \<Longrightarrow> \<not> snapshot a \<Longrightarrow> main w av (a\<lparr>dest := d\<rparr>) = main w av a"
  by (simp add: main_def resolve_token_def resolve_cache_dir_def download_single_file_def
        download_single_file_try_def split: option.splits)

text \<open>
  C4: a destination given with \<open>--dest\<close> in a single-file invocation should be among the
  parameters handed to \<open>hf_hub_download\<close>. The code drops it: \<open>download_single_file\<close>
  takes \<open>dest\<close> and never reads it, so the run below, with \<open>--dest ./models\<close>, calls
  the library with \<open>repo_id\<close>, \<open>filename\<close> and \<open>revision\<close> only.
\<close>

theorem single_file_dest_not_delegated:
  "lib_calls (fst (main example_world True (example_args\<lparr>dest := Some ''./models''\<rparr>)))
     = [(''hf_hub_download'',
         [(''repo_id'', PStr ''gpt2''), (''filename'', PStr ''config.json''),
          (''revision'', PStr ''main'')])]"
  by (simp add: main_def example_world_def example_args_def
          resolve_token_def resolve_cache_dir_def py_or_def download_single_file_def
          download_single_file_try_def hf_hub_download_kwargs_def kw_if_def except_Exception_def
          Let_def)

lemma check_with_library:
  "hf_importable w \<Longrightarrow> check a \<Longrightarrow>
   script w a = ([Stdout (send_complete [(''available'', PBool True), (''version'', PNone)])], 0)"
  by (simp add: script_def main_def check_available_def)

text \<open>
  C5: with \<open>--check\<close> the script should print one "complete" event and exit with 0 in
  every environment. Where \<open>huggingface_hub\<close> cannot be imported, the import guard ends
  the process with status 1 before \<open>main\<close> runs, and nothing is printed on standard
  output.
\<close>

theorem check_without_library:
  "script (example_world\<lparr>hf_importable := False\<rparr>) (example_args\<lparr>check := True\<rparr>)
     = ([Stderr (''ERROR: huggingface_hub is not installed. Install it with:'' @ [CHR 0x0A]),
         Stderr (''  pip install huggingface_hub'' @ [CHR 0x0A])], 1)
   \<and> events_of_type ''complete''
        (fst (script (example_world\<lparr>hf_importable := False\<rparr>) (example_args\<lparr>check := True\<rparr>))) = []"
  by (simp add: script_def events_of_type_def)




lemma split_sep_not_Nil: "split_sep sep s \<noteq> []"
  by (induction s) (auto split: list.splits)

lemma join_split_sep: "join_sep sep (split_sep sep s) = s"
proof (induction s)
  case Nil
  then show ?case by simp
next
  case (Cons c cs)
  obtain p ps where ps: "split_sep sep cs = p # ps"
    using split_sep_not_Nil[of sep cs] by (cases "split_sep sep cs") auto
  with Cons show ?case
    by (cases ps) auto
qed

lemma split_sep_pieces: "p \<in> set (split_sep sep s) \<Longrightarrow> sep \<notin> set p"
proof (induction s arbitrary: p)
  case Nil
  then show ?case by simp
next
  case (Cons c cs)
  obtain q qs where qs: "split_sep sep cs = q # qs"
    using split_sep_not_Nil[of sep cs] by (cases "split_sep sep cs") auto
  with Cons show ?case
    by (auto split: if_splits)
qed

lemma split_join_sep:
  "ps \<noteq> [] \<Longrightarrow> \<forall>p\<in>set ps. sep \<notin> set p \<Longrightarrow> split_sep sep (join_sep sep ps) = ps"
proof (induction ps rule: join_sep.induct)
  case (1 sep)
  then show ?case by simp
next
  case (2 sep p)
  then show ?case
    by (induction p) auto
next
  case (3 sep p q ps)
  then have rest: "split_sep sep (join_sep sep (q # ps)) = q # ps"
    by simp
  from "3.prems" have "sep \<notin> set p" by simp
  then show ?case
    using rest by (induction p) auto
qed

lemma main_snapshot_call:
  assumes "\<not> check a" and "truthy (repo_id a)" and "\<not> url_only a" and "snapshot a"
  shows "lib_calls (fst (main w av a)) =
           [(''snapshot_download'',
             snapshot_download_kwargs (case repo_id a of None \<Rightarrow> [] | Some r \<Rightarrow> r) (dest a)
               (revision a) (resolve_token w a) (resolve_cache_dir w a)
               (split_patterns (allow_patterns a)) (split_patterns (ignore_patterns a)))]"
  using assms
  by (simp add: main_def Let_def fst_case_result download_snapshot_call)

lemma snapshot_kwargs_patterns:
  "map_of (snapshot_download_kwargs rid dst rvn tok cdir allow ignore) ''allow_patterns''
     = (case allow of None \<Rightarrow> None | Some ps \<Rightarrow> if ps = [] then None else Some (PList (map PStr ps)))"
  "map_of (snapshot_download_kwargs rid dst rvn tok cdir allow ignore) ''ignore_patterns''
     = (case ignore of None \<Rightarrow> None | Some ps \<Rightarrow> if ps = [] then None else Some (PList (map PStr ps)))"
  by (simp_all add: snapshot_download_kwargs_def kw_if_def kw_if_list_def map_add_def
        split: option.splits)

text \<open>
  C7: as stated, every pattern string given to a snapshot invocation is split at the
  commas and the sequence is passed to the snapshot operation. For the empty string,
  whose split is the one-element sequence of the empty pattern, the code passes no
  \<open>allow_patterns\<close> at all.
\<close>

theorem empty_pattern_string_counterexample:
  "snapshot empty_pattern_args
   \<and> allow_patterns empty_pattern_args = Some ''''
   \<and> split_sep CHR '','' '''' = ['''']
   \<and> lib_calls (fst (main example_world True empty_pattern_args))
       = [(''snapshot_download'', [(''repo_id'', PStr ''gpt2''), (''revision'', PStr ''main'')])]"
  by (simp add: empty_pattern_args_def main_def example_world_def example_args_def
        resolve_token_def resolve_cache_dir_def py_or_def split_patterns_def
        download_snapshot_def download_snapshot_try_def snapshot_download_kwargs_def
        kw_if_def kw_if_list_def except_Exception_def Let_def)

text \<open>
  C7, amended: in a snapshot invocation a non-empty pattern string is split at the commas
  into the ordered sequence of its pieces (\<open>"a,b,c"\<close> gives \<open>["a","b","c"]\<close>; joining the
  pieces with commas gives the string back, and no piece holds a comma), and that
  sequence is passed to \<open>snapshot_download\<close>; an omitted or empty pattern argument is
  passed as absent.
\<close>

theorem patterns_split_and_passed:
  assumes "\<not> check a" and "truthy (repo_id a)" and "\<not> url_only a" and "snapshot a"
  shows "\<exists>kwargs.
           lib_calls (fst (main w av a)) = [(''snapshot_download'', kwargs)]
         \<and> map_of kwargs ''allow_patterns'' =
             (case allow_patterns a of
                None \<Rightarrow> None
              | Some s \<Rightarrow> if s = [] then None
                          else Some (PList (map PStr (split_sep CHR '','' s))))
         \<and> map_of kwargs ''ignore_patterns'' =
             (case ignore_patterns a of
                None \<Rightarrow> None
              | Some s \<Rightarrow> if s = [] then None
                          else Some (PList (map PStr (split_sep CHR '','' s))))
         \<and> split_sep CHR '','' ''a,b,c'' = [''a'', ''b'', ''c'']
         \<and> join_sep CHR '','' (split_sep CHR '','' s) = s
         \<and> (\<forall>p\<in>set (split_sep CHR '','' s). CHR '','' \<notin> set p)"
proof -
  have "map_of (snapshot_download_kwargs (case repo_id a of None \<Rightarrow> [] | Some r \<Rightarrow> r) (dest a)
               (revision a) (resolve_token w a) (resolve_cache_dir w a)
               (split_patterns (allow_patterns a)) (split_patterns (ignore_patterns a)))
            ''allow_patterns'' =
             (case allow_patterns a of
                None \<Rightarrow> None
              | Some s \<Rightarrow> if s = [] then None
                          else Some (PList (map PStr (split_sep CHR '','' s))))"
    by (simp add: snapshot_kwargs_patterns(1) split_patterns_def split_sep_not_Nil
          split: option.splits)
  moreover have "map_of (snapshot_download_kwargs (case repo_id a of None \<Rightarrow> [] | Some r \<Rightarrow> r) (dest a)
               (revision a) (resolve_token w a) (resolve_cache_dir w a)
               (split_patterns (allow_patterns a)) (split_patterns (ignore_patterns a)))
            ''ignore_patterns'' =
             (case ignore_patterns a of
                None \<Rightarrow> None
              | Some s \<Rightarrow> if s = [] then None
                          else Some (PList (map PStr (split_sep CHR '','' s))))"
    by (simp add: snapshot_kwargs_patterns(2) split_patterns_def split_sep_not_Nil
          split: option.splits)
  moreover have "split_sep CHR '','' ''a,b,c'' = [''a'', ''b'', ''c'']"
    by simp
  moreover have "\<forall>p\<in>set (split_sep CHR '','' s). CHR '','' \<notin> set p"
    using split_sep_pieces by blast
  ultimately show ?thesis
    using main_snapshot_call[OF assms, of w av] join_split_sep[of "CHR '',''" s]
    by simp
qed

theorem patterns_split_and_passed_witness:
  "\<not> check pattern_args \<and> truthy (repo_id pattern_args) \<and> \<not> url_only pattern_args
   \<and> snapshot pattern_args
   \<and> lib_calls (fst (main example_world True pattern_args))
       = [(''snapshot_download'',
           [(''repo_id'', PStr ''gpt2''), (''revision'', PStr ''main''),
            (''allow_patterns'', PList [PStr ''a'', PStr ''b'', PStr ''c''])])]"
proof -
  have flags: "\<not> check pattern_args" "truthy (repo_id pattern_args)"
    "\<not> url_only pattern_args" "snapshot pattern_args"
    by (simp_all add: pattern_args_def example_args_def)
  have run: "lib_calls (fst (main example_world True pattern_args))
       = [(''snapshot_download'',
           [(''repo_id'', PStr ''gpt2''), (''revision'', PStr ''main''),
            (''allow_patterns'', PList [PStr ''a'', PStr ''b'', PStr ''c''])])]"
    by (simp add: pattern_args_def main_def example_world_def example_args_def
        resolve_token_def resolve_cache_dir_def py_or_def split_patterns_def
        download_snapshot_def download_snapshot_try_def snapshot_download_kwargs_def
        kw_if_def kw_if_list_def except_Exception_def Let_def)
  from patterns_split_and_passed[OF flags, of example_world True] flags run show ?thesis
    by simp
qed

end
